theory Spec2Isabelle
  imports Complex_Main
begin

section \<open>Floating-point values of the scoring pipeline\<close>

text \<open>
  Every number of \<^verbatim>\<open>stockscorepro.py\<close> is a Python or numpy double. The model keeps
  the three kinds of value the program itself distinguishes (\<^verbatim>\<open>math.isnan\<close>,
  \<^verbatim>\<open>math.isinf\<close>, and ordinary numbers) and computes on the ordinary ones with
  exact real arithmetic: rounding, overflow of finite results, underflow and the sign of
  zero are not modelled. The special values follow IEEE 754 as numpy applies it: a
  comparison with NaN is false, \<^verbatim>\<open>x / 0\<close> on numpy doubles is an infinity or NaN
  (a warning, no exception), and \<^verbatim>\<open>inf - inf\<close>, \<^verbatim>\<open>0 * inf\<close>,
  \<^verbatim>\<open>inf / inf\<close> are NaN.
\<close>

datatype fl = Fin real | PInf | NInf | NaN

fun isnan :: "fl \<Rightarrow> bool" where
  "isnan NaN = True"
| "isnan _ = False"

fun isinf :: "fl \<Rightarrow> bool" where
  "isinf PInf = True"
| "isinf NInf = True"
| "isinf _ = False"

fun isfinite :: "fl \<Rightarrow> bool" where
  "isfinite (Fin _) = True"
| "isfinite _ = False"

text \<open>\<^verbatim>\<open>a < b\<close> and \<^verbatim>\<open>a <= b\<close>: false as soon as one side is NaN.\<close>

fun fl_lt :: "fl \<Rightarrow> fl \<Rightarrow> bool" where
  "fl_lt NaN _ = False"
| "fl_lt _ NaN = False"
| "fl_lt (Fin x) (Fin y) = (x < y)"
| "fl_lt _ NInf = False"
| "fl_lt NInf _ = True"
| "fl_lt PInf _ = False"
| "fl_lt (Fin _) PInf = True"

fun fl_le :: "fl \<Rightarrow> fl \<Rightarrow> bool" where
  "fl_le NaN _ = False"
| "fl_le _ NaN = False"
| "fl_le (Fin x) (Fin y) = (x \<le> y)"
| "fl_le NInf _ = True"
| "fl_le _ PInf = True"
| "fl_le PInf _ = False"
| "fl_le (Fin _) NInf = False"

text \<open>The infinity with the sign of \<open>s\<close>; NaN when \<open>s\<close> is zero.\<close>

definition inf_of_sign :: "real \<Rightarrow> fl" where
  "inf_of_sign s = (if s = 0 then NaN else if 0 < s then PInf else NInf)"

fun fl_neg :: "fl \<Rightarrow> fl" where
  "fl_neg (Fin x) = Fin (- x)"
| "fl_neg PInf = NInf"
| "fl_neg NInf = PInf"
| "fl_neg NaN = NaN"

fun fl_abs :: "fl \<Rightarrow> fl" where
  "fl_abs (Fin x) = Fin \<bar>x\<bar>"
| "fl_abs PInf = PInf"
| "fl_abs NInf = PInf"
| "fl_abs NaN = NaN"

fun fl_add :: "fl \<Rightarrow> fl \<Rightarrow> fl" where
  "fl_add NaN _ = NaN"
| "fl_add _ NaN = NaN"
| "fl_add (Fin x) (Fin y) = Fin (x + y)"
| "fl_add PInf NInf = NaN"
| "fl_add NInf PInf = NaN"
| "fl_add PInf _ = PInf"
| "fl_add NInf _ = NInf"
| "fl_add (Fin _) PInf = PInf"
| "fl_add (Fin _) NInf = NInf"

definition fl_sub :: "fl \<Rightarrow> fl \<Rightarrow> fl" where
  "fl_sub a b = fl_add a (fl_neg b)"

fun fl_mul :: "fl \<Rightarrow> fl \<Rightarrow> fl" where
  "fl_mul NaN _ = NaN"
| "fl_mul _ NaN = NaN"
| "fl_mul (Fin x) (Fin y) = Fin (x * y)"
| "fl_mul (Fin x) PInf = inf_of_sign x"
| "fl_mul (Fin x) NInf = inf_of_sign (- x)"
| "fl_mul PInf (Fin y) = inf_of_sign y"
| "fl_mul NInf (Fin y) = inf_of_sign (- y)"
| "fl_mul PInf PInf = PInf"
| "fl_mul NInf NInf = PInf"
| "fl_mul PInf NInf = NInf"
| "fl_mul NInf PInf = NInf"

text \<open>
  Division of numpy doubles. A finite value divided by zero is an infinity of the
  dividend's sign, \<^verbatim>\<open>0 / 0\<close> is NaN, a finite value divided by an infinity is zero,
  an infinity divided by a finite value keeps or flips its sign (zero counts as
  positive), and an infinity divided by an infinity is NaN.
\<close>

fun fl_div :: "fl \<Rightarrow> fl \<Rightarrow> fl" where
  "fl_div NaN _ = NaN"
| "fl_div _ NaN = NaN"
| "fl_div (Fin x) (Fin y) = (if y = 0 then inf_of_sign x else Fin (x / y))"
| "fl_div (Fin _) _ = Fin 0"
| "fl_div PInf (Fin y) = (if 0 \<le> y then PInf else NInf)"
| "fl_div NInf (Fin y) = (if 0 \<le> y then NInf else PInf)"
| "fl_div _ _ = NaN"

text \<open>
  \<^verbatim>\<open>math.exp\<close>. It raises \<^verbatim>\<open>OverflowError\<close> only where the result exceeds the
  largest double, which needs a positive argument; the program calls it on the negated
  square of a number only.
\<close>

fun fl_exp :: "fl \<Rightarrow> fl" where
  "fl_exp (Fin x) = Fin (exp x)"
| "fl_exp PInf = PInf"
| "fl_exp NInf = Fin 0"
| "fl_exp NaN = NaN"

text \<open>
  Python's builtin \<^verbatim>\<open>max(a, b)\<close> and \<^verbatim>\<open>min(a, b)\<close> keep the first argument
  unless the second compares strictly greater (smaller): with a NaN second argument the
  first one is returned.
\<close>

definition py_max :: "fl \<Rightarrow> fl \<Rightarrow> fl" where
  "py_max a b = (if fl_lt a b then b else a)"

definition py_min :: "fl \<Rightarrow> fl \<Rightarrow> fl" where
  "py_min a b = (if fl_lt b a then b else a)"

section \<open>The result record\<close>

text \<open>
  The dictionary built by \<^verbatim>\<open>fetch_stock_data\<close> always carries the same nine keys, so it
  is a record. \<^verbatim>\<open>CurrentPrice\<close> and \<^verbatim>\<open>MA50\<close> hold Python's \<^verbatim>\<open>None\<close> in the
  fallback record, hence the option type.
\<close>

record ScoreResult =
  Ticker :: string
  Company :: string
  CurrentPrice :: "fl option"
  MA50 :: "fl option"
  DistancePct :: fl
  Flatness :: fl
  Proximity :: fl
  Bonus :: fl
  Score :: fl

section \<open>\<^verbatim>\<open>validate_result\<close>\<close>

text \<open>
  The five blocks of \<^verbatim>\<open>validate_result\<close>, in the order of the source. Each reads the
  record as the previous block left it. Logging has no effect on the result and is left
  out. The defaults of \<^verbatim>\<open>result.get\<close> apply to absent keys, which a record does not
  have.
\<close>

text \<open>\<^verbatim>\<open>cp is None or ma50 is None or cp <= 0 or ma50 <= 0\<close>\<close>

definition prices_invalid :: "fl option \<Rightarrow> fl option \<Rightarrow> bool" where
  "prices_invalid cp ma50 =
     (case cp of
        None \<Rightarrow> True
      | Some c \<Rightarrow>
          (case ma50 of
             None \<Rightarrow> True
           | Some m \<Rightarrow> fl_le c (Fin 0) \<or> fl_le m (Fin 0)))"

definition validate_prices :: "ScoreResult \<Rightarrow> ScoreResult" where
  "validate_prices r =
     (if prices_invalid (CurrentPrice r) (MA50 r) then r\<lparr>Score := Fin 0\<rparr> else r)"

definition validate_flatness :: "ScoreResult \<Rightarrow> ScoreResult" where
  "validate_flatness r =
     (let flatness = Flatness r in
      if fl_lt flatness (Fin 0) \<or> fl_lt (Fin 1) flatness
      then r\<lparr>Flatness := py_max (Fin 0) (py_min flatness (Fin 1))\<rparr>
      else r)"

definition validate_proximity :: "ScoreResult \<Rightarrow> ScoreResult" where
  "validate_proximity r =
     (let proximity = Proximity r in
      if fl_lt proximity (Fin 0) \<or> fl_lt (Fin 1) proximity
      then r\<lparr>Proximity := py_max (Fin 0) (py_min proximity (Fin 1))\<rparr>
      else r)"

definition validate_bonus :: "ScoreResult \<Rightarrow> ScoreResult" where
  "validate_bonus r = (if fl_lt (Bonus r) (Fin 1) then r\<lparr>Bonus := Fin 1\<rparr> else r)"

definition validate_score :: "ScoreResult \<Rightarrow> ScoreResult" where
  "validate_score r =
     (if isnan (Score r) \<or> isinf (Score r) then r\<lparr>Score := Fin 0\<rparr> else r)"

definition validate_result :: "ScoreResult \<Rightarrow> ScoreResult" where
  "validate_result r =
     validate_score
       (validate_bonus
          (validate_proximity
             (validate_flatness
                (validate_prices r))))"

section \<open>\<^verbatim>\<open>fetch_stock_data\<close>\<close>

subsection \<open>The market-data provider\<close>

text \<open>
  \<^verbatim>\<open>yfinance\<close> is outside the program, so what it answers for a ticker is an argument
  of the model: the \<^verbatim>\<open>info\<close> dictionary (the two keys the program reads; an absent
  key and a \<^verbatim>\<open>None\<close> value are both \<open>None\<close>) and the \<^verbatim>\<open>Close\<close> column of
  \<^verbatim>\<open>history(period="70d")\<close>, either of which may raise instead. The column is given
  in chronological order, that is as \<^verbatim>\<open>data.sort_index()\<close> leaves it; sorting changes
  neither its length nor its emptiness, which is all the program looks at before
  sorting. A close is a finite price or a missing observation (\<open>None\<close>, numpy's NaN).
\<close>

datatype cause = TooFewData | NoMA50

datatype error =
    ProviderError string
  | ValueError cause string
  | KeyError string

record ticker_info =
  longName :: "string option"
  shortName :: "string option"

record provider =
  info :: "error + ticker_info"
  history :: "error + real option list"

text \<open>
  \<^verbatim>\<open>info.get("longName") or info.get("shortName") or ticker\<close>: \<^verbatim>\<open>None\<close> and the empty
  string are falsy, so the next alternative is taken.
\<close>

definition company_name :: "ticker_info \<Rightarrow> string \<Rightarrow> string" where
  "company_name i ticker =
     (case longName i of
        Some (c # cs) \<Rightarrow> c # cs
      | _ \<Rightarrow> (case shortName i of
                Some (d # ds) \<Rightarrow> d # ds
              | _ \<Rightarrow> ticker))"

subsection \<open>The moving average\<close>

fun close_value :: "real option \<Rightarrow> fl" where
  "close_value None = NaN"
| "close_value (Some x) = Fin x"

text \<open>The sum of a window, or \<open>None\<close> when an observation is missing.\<close>

fun window_sum :: "real option list \<Rightarrow> real option" where
  "window_sum [] = Some 0"
| "window_sum (None # cs) = None"
| "window_sum (Some x # cs) =
     (case window_sum cs of None \<Rightarrow> None | Some s \<Rightarrow> Some (x + s))"

text \<open>
  \<^verbatim>\<open>rolling(window=w).mean()\<close> at the last row of \<open>cs\<close>: NaN unless the window holds
  \<open>w\<close> observations, none of them missing (\<^verbatim>\<open>min_periods\<close> defaults to the window).
\<close>

definition window_mean :: "nat \<Rightarrow> real option list \<Rightarrow> fl" where
  "window_mean w cs =
     (if length cs < w then NaN
      else (case window_sum (drop (length cs - w) cs) of
              None \<Rightarrow> NaN
            | Some s \<Rightarrow> Fin (s / real w)))"

definition rolling_mean :: "nat \<Rightarrow> real option list \<Rightarrow> fl list" where
  "rolling_mean w cs = map (\<lambda>i. window_mean w (take (Suc i) cs)) [0..<length cs]"

definition dropna :: "fl list \<Rightarrow> fl list" where
  "dropna xs = filter (\<lambda>x. \<not> isnan x) xs"

subsection \<open>The metrics\<close>

text \<open>
  Lines 91 to 96: \<^verbatim>\<open>ma50_series.iloc[-5]\<close> is the fifth value counted from the end,
  the latest one being \<^verbatim>\<open>iloc[-1]\<close>.
\<close>

definition slope :: "fl list \<Rightarrow> fl" where
  "slope ma50_series =
     (if 5 \<le> length ma50_series
      then (let ma50_latest = last ma50_series;
                ma50_5days_ago = ma50_series ! (length ma50_series - 5)
            in fl_div (fl_sub ma50_latest ma50_5days_ago) ma50_5days_ago)
      else Fin 0)"

definition flatness_of :: "fl \<Rightarrow> fl" where
  "flatness_of sl =
     (let threshold = Fin (5 / 100)
      in py_max (Fin 0) (fl_sub (Fin 1) (fl_div (fl_abs sl) threshold)))"

definition distance :: "fl \<Rightarrow> fl \<Rightarrow> fl" where
  "distance current_price ma50_latest =
     fl_div (fl_sub current_price ma50_latest) ma50_latest"

text \<open>\<^verbatim>\<open>math.exp(- (d ** 2) / (2 * sigma ** 2))\<close>: the minus sign binds before the division.\<close>

definition proximity_of :: "fl \<Rightarrow> fl" where
  "proximity_of d =
     (let sigma = 3 / 100
      in fl_exp (fl_div (fl_neg (fl_mul d d)) (Fin (2 * sigma\<^sup>2))))"

definition bonus_of :: "fl \<Rightarrow> fl" where
  "bonus_of d =
     (let gamma = Fin 1
      in if fl_lt d (Fin 0) then fl_add (Fin 1) (fl_mul gamma (fl_neg d)) else Fin 1)"

text \<open>The dictionary of lines 114 to 124, before \<^verbatim>\<open>validate_result\<close> sees it.\<close>

definition raw_result :: "string \<Rightarrow> string \<Rightarrow> real option list \<Rightarrow> fl list \<Rightarrow> ScoreResult" where
  "raw_result ticker company closes ma50_series =
     (let current_price = close_value (last closes);
          ma50_latest = last ma50_series;
          flatness = flatness_of (slope ma50_series);
          d = distance current_price ma50_latest;
          proximity = proximity_of d;
          bonus = bonus_of d;
          score = fl_mul (fl_mul flatness proximity) bonus
      in \<lparr>Ticker = ticker, Company = company,
          CurrentPrice = Some current_price, MA50 = Some ma50_latest,
          DistancePct = d, Flatness = flatness, Proximity = proximity,
          Bonus = bonus, Score = score\<rparr>)"

subsection \<open>The body of the \<^verbatim>\<open>try\<close> block and its handler\<close>

text \<open>
  \<open>try_block\<close> is lines 68 to 125: \<open>Inl\<close> is an exception that leaves the block,
  \<open>Inr\<close> the value of its \<^verbatim>\<open>return\<close>. \<open>fallback\<close> is the dictionary returned by
  the \<^verbatim>\<open>except Exception\<close> handler, lines 128 to 138.
\<close>

definition try_block :: "string \<Rightarrow> provider \<Rightarrow> error + ScoreResult" where
  "try_block ticker p =
     (case info p of
        Inl e \<Rightarrow> Inl e
      | Inr i \<Rightarrow>
          (case history p of
             Inl e \<Rightarrow> Inl e
           | Inr closes \<Rightarrow>
               if closes = [] \<or> length closes < 50 then Inl (ValueError TooFewData ticker)
               else (let ma50_series = dropna (rolling_mean 50 closes)
                     in if ma50_series = [] then Inl (ValueError NoMA50 ticker)
                        else Inr (validate_result
                                    (raw_result ticker (company_name i ticker)
                                       closes ma50_series)))))"

definition fallback :: "string \<Rightarrow> ScoreResult" where
  "fallback ticker =
     \<lparr>Ticker = ticker, Company = ticker, CurrentPrice = None, MA50 = None,
      DistancePct = Fin 0, Flatness = Fin 0, Proximity = Fin 0, Bonus = Fin 0,
      Score = Fin 0\<rparr>"

definition fetch_stock_data :: "string \<Rightarrow> provider \<Rightarrow> ScoreResult" where
  "fetch_stock_data ticker p =
     (case try_block ticker p of
        Inl e \<Rightarrow> fallback ticker
      | Inr result \<Rightarrow> result)"

section \<open>\<^verbatim>\<open>allocate_investment\<close>\<close>

record AllocationRecord = ScoreResult +
  AllocationPct :: fl
  AllocationPLN :: fl

text \<open>
  Lines 158 to 163 compute on float64 columns: \<^verbatim>\<open>Series.sum()\<close>, the division by the
  total, the product with the capital and \<^verbatim>\<open>Series.round(2)\<close>. What they return
  depends on how doubles round and overflow and on the order in which pandas adds, none
  of which the exact arithmetic of the first section has. The four operations are
  therefore arguments of the model, and nothing is assumed about them here. The
  comparisons of lines 155 and 159 are exact on doubles and stay as above.
\<close>

record double_ops =
  d_sum :: "fl list \<Rightarrow> fl"
  d_div :: "fl \<Rightarrow> fl \<Rightarrow> fl"
  d_mul :: "fl \<Rightarrow> fl \<Rightarrow> fl"
  d_round2 :: "fl \<Rightarrow> fl"

text \<open>
  \<^verbatim>\<open>pd.DataFrame(data)\<close> infers the type of each column from all the rows of
  \<^verbatim>\<open>data\<close>. A price column that holds \<^verbatim>\<open>None\<close> in every row stays a column of
  objects and keeps its \<^verbatim>\<open>None\<close>; as soon as one row holds a number the column is
  float64 and every \<^verbatim>\<open>None\<close> in it becomes NaN, which is what \<^verbatim>\<open>to_dict\<close> hands
  back. The other columns hold strings or floats in every row and come back unchanged.
\<close>

definition frame_price :: "fl option list \<Rightarrow> fl option \<Rightarrow> fl option" where
  "frame_price column v =
     (if list_all (\<lambda>x. x = None) column then v
      else (case v of None \<Rightarrow> Some NaN | Some x \<Rightarrow> Some x))"

definition frame_row :: "ScoreResult list \<Rightarrow> ScoreResult \<Rightarrow> ScoreResult" where
  "frame_row data r =
     r\<lparr>CurrentPrice := frame_price (map CurrentPrice data) (CurrentPrice r),
       MA50 := frame_price (map MA50 data) (MA50 r)\<rparr>"

definition allocation_row ::
    "double_ops \<Rightarrow> ScoreResult list \<Rightarrow> fl \<Rightarrow> fl \<Rightarrow> ScoreResult \<Rightarrow> AllocationRecord" where
  "allocation_row ops data total_score monthly_capital r =
     (let pct = d_div ops (Score r) total_score
      in ScoreResult.extend (frame_row data r)
           (AllocationRecord.fields pct (d_round2 ops (d_mul ops pct monthly_capital))))"

text \<open>
  \<^verbatim>\<open>pd.DataFrame(data)\<close> of an empty list is a frame with no columns, and
  \<^verbatim>\<open>df['Score']\<close> on it raises \<^verbatim>\<open>KeyError\<close>; nothing in \<^verbatim>\<open>allocate_investment\<close>
  catches it. A non-empty list of result dictionaries gives a frame with one row per
  dictionary, in order.
\<close>

text \<open>\<^verbatim>\<open>df[df['Score'] > 0]\<close>, line 155.\<close>

definition positive_rows :: "ScoreResult list \<Rightarrow> ScoreResult list" where
  "positive_rows data = filter (\<lambda>r. fl_lt (Fin 0) (Score r)) data"

definition allocate_investment ::
    "double_ops \<Rightarrow> ScoreResult list \<Rightarrow> fl \<Rightarrow> error + AllocationRecord list" where
  "allocate_investment ops data monthly_capital =
     (if data = [] then Inl (KeyError ''Score'')
      else (let df = positive_rows data
            in if df = [] then Inr []
               else (let total_score = d_sum ops (map Score df)
                     in if fl_le total_score (Fin 0) then Inr []
                        else Inr (map (allocation_row ops data total_score monthly_capital)
                                    df))))"

section \<open>Auxiliary definitions and example inputs\<close>

text \<open>
  What blocks two and three of \<^verbatim>\<open>validate_result\<close> do to a value, and the number
  inside a finite value (zero otherwise); both serve the proofs only.
\<close>

definition clamp01 :: "fl \<Rightarrow> fl" where
  "clamp01 v =
     (if fl_lt v (Fin 0) \<or> fl_lt (Fin 1) v then py_max (Fin 0) (py_min v (Fin 1)) else v)"

fun fl_real :: "fl \<Rightarrow> real" where
  "fl_real (Fin x) = x"
| "fl_real _ = 0"

text \<open>
  Fifty-five closes at 100: six moving-average values, all 100. In \<open>step_closes\<close> the
  last close is 150, so the moving average is 100 five times and then 101.
\<close>

definition flat_closes :: "real option list" where
  "flat_closes = replicate 55 (Some 100)"

definition step_closes :: "real option list" where
  "step_closes = replicate 54 (Some 100) @ [Some 150]"

definition flat_provider :: provider where
  "flat_provider =
     \<lparr>info = Inr \<lparr>longName = None, shortName = Some ''Acme''\<rparr>,
      history = Inr flat_closes\<rparr>"

definition nameless_provider :: provider where
  "nameless_provider =
     \<lparr>info = Inr \<lparr>longName = None, shortName = Some []\<rparr>,
      history = Inr flat_closes\<rparr>"

definition info_down_provider :: provider where
  "info_down_provider =
     \<lparr>info = Inl (ProviderError ''info unavailable''), history = Inr flat_closes\<rparr>"

definition short_provider :: provider where
  "short_provider =
     \<lparr>info = Inr \<lparr>longName = Some ''Acme Corp'', shortName = None\<rparr>,
      history = Inr (replicate 49 (Some 100))\<rparr>"

definition step_provider :: provider where
  "step_provider =
     \<lparr>info = Inr \<lparr>longName = Some ''Acme Corp'', shortName = None\<rparr>,
      history = Inr step_closes\<rparr>"

definition flat_record :: "string \<Rightarrow> string \<Rightarrow> ScoreResult" where
  "flat_record t c =
     \<lparr>Ticker = t, Company = c, CurrentPrice = Some (Fin 100), MA50 = Some (Fin 100),
      DistancePct = Fin 0, Flatness = Fin 1, Proximity = Fin 1, Bonus = Fin 1,
      Score = Fin 1\<rparr>"

definition negative_price_record :: ScoreResult where
  "negative_price_record =
     \<lparr>Ticker = ''LEG'', Company = ''Leggett'', CurrentPrice = Some (Fin (- 5)),
      MA50 = Some (Fin 100), DistancePct = Fin (- 21 / 20), Flatness = Fin 1,
      Proximity = Fin (1 / 2), Bonus = Fin (41 / 20), Score = Fin (41 / 40)\<rparr>"

text \<open>
  The four operations without rounding: sums, quotients and products of the exact
  reals, and rounding to two decimals as numpy does it (scale by 100, nearest integer
  with ties to the even one, scale back) but on the exact numbers. They give what the
  doubles give on infinities and NaN, and on finite values wherever every intermediate
  result is itself a double, as with the Scores 3 and 1 and the capital 300 below:
  total 4, shares 0.75 and 0.25, amounts 225 and 75.
\<close>

fun exact_sum :: "fl list \<Rightarrow> fl" where
  "exact_sum [] = Fin 0"
| "exact_sum (x # xs) = fl_add x (exact_sum xs)"

definition rint :: "real \<Rightarrow> real" where
  "rint x =
     (let f = \<lfloor>x\<rfloor>; d = x - of_int f
      in if d < 1 / 2 then of_int f
         else if 1 / 2 < d then of_int (f + 1)
         else if even f then of_int f
         else of_int (f + 1))"

fun exact_round2 :: "fl \<Rightarrow> fl" where
  "exact_round2 (Fin x) = Fin (rint (x * 100) / 100)"
| "exact_round2 v = v"

definition exact_ops :: double_ops where
  "exact_ops = \<lparr>d_sum = exact_sum, d_div = fl_div, d_mul = fl_mul, d_round2 = exact_round2\<rparr>"

definition three_records :: "ScoreResult list" where
  "three_records =
     [flat_record ''UPS'' ''United Parcel''\<lparr>Score := Fin 3\<rparr>,
      flat_record ''GPC'' ''Genuine Parts'',
      fallback ''KDP'']"

definition infinite_score_record :: ScoreResult where
  "infinite_score_record = flat_record ''UPS'' ''United Parcel''\<lparr>Score := PInf\<rparr>"

text \<open>A moving-average series of two values, too short for a slope.\<close>

definition short_series :: "fl list" where
  "short_series = [Fin 100, Fin 104]"

section \<open>Properties of the floating-point model\<close>

lemma clamp01_idem: "clamp01 (clamp01 v) = clamp01 v"
  by (cases v) (simp_all add: clamp01_def py_max_def py_min_def)

lemma exact_sum_finite:
  "list_all isfinite vs \<Longrightarrow> exact_sum vs = Fin (sum_list (map fl_real vs))"
proof (induction vs)
  case Nil
  show ?case by simp
next
  case (Cons v vs)
  then obtain x where "v = Fin x" by (cases v) simp_all
  with Cons show ?case by simp
qed

lemma sum_list_positive:
  "vs \<noteq> [] \<Longrightarrow> list_all (\<lambda>v. fl_lt (Fin 0) v) vs \<Longrightarrow> list_all isfinite vs \<Longrightarrow>
     0 < sum_list (map fl_real vs)"
proof (induction vs)
  case Nil
  then show ?case by simp
next
  case (Cons v vs)
  then obtain x where v: "v = Fin x" "0 < x" by (cases v) simp_all
  show ?case
  proof (cases "vs = []")
    case True
    with v show ?thesis by simp
  next
    case False
    with Cons have "0 < sum_list (map fl_real vs)" by simp
    with v show ?thesis by simp
  qed
qed

lemma sum_list_quotients:
  "sum_list (map (\<lambda>x. f x / (c::real)) xs) = sum_list (map f xs) / c"
  by (induction xs) (simp_all add: add_divide_distrib)

text \<open>
  When each \<open>f r\<close> is within the relative error \<open>e\<close> and the absolute error \<open>d\<close> of
  \<open>g r\<close>, the sums differ by at most \<open>e\<close> times the sum of the \<open>g r\<close> plus \<open>d\<close> for
  each term.
\<close>

lemma sum_list_error:
  fixes f g :: "'a \<Rightarrow> real"
  assumes "\<forall>r\<in>set xs. \<bar>f r - g r\<bar> \<le> e * g r + d"
  shows "\<bar>sum_list (map f xs) - sum_list (map g xs)\<bar> \<le>
           e * sum_list (map g xs) + d * real (length xs)"
  using assms
proof (induction xs)
  case Nil
  show ?case by simp
next
  case (Cons x xs)
  then have ih: "\<bar>sum_list (map f xs) - sum_list (map g xs)\<bar> \<le>
      e * sum_list (map g xs) + d * real (length xs)"
    and hd: "\<bar>f x - g x\<bar> \<le> e * g x + d"
    by simp_all
  have "\<bar>(f x + sum_list (map f xs)) - (g x + sum_list (map g xs))\<bar> \<le>
      \<bar>f x - g x\<bar> + \<bar>sum_list (map f xs) - sum_list (map g xs)\<bar>"
    by linarith
  also have "\<dots> \<le> (e * g x + d) + (e * sum_list (map g xs) + d * real (length xs))"
    using ih hd by linarith
  also have "\<dots> = e * (g x + sum_list (map g xs)) + d * real (length (x # xs))"
    by (simp add: algebra_simps)
  finally show ?case by simp
qed

section \<open>The validator, field by field\<close>

lemma validate_result_fields:
  "Ticker (validate_result r) = Ticker r"
  "Company (validate_result r) = Company r"
  "CurrentPrice (validate_result r) = CurrentPrice r"
  "MA50 (validate_result r) = MA50 r"
  "DistancePct (validate_result r) = DistancePct r"
  "Flatness (validate_result r) = clamp01 (Flatness r)"
  "Proximity (validate_result r) = clamp01 (Proximity r)"
  "Bonus (validate_result r) = (if fl_lt (Bonus r) (Fin 1) then Fin 1 else Bonus r)"
  "Score (validate_result r) =
     (if prices_invalid (CurrentPrice r) (MA50 r) \<or> isnan (Score r) \<or> isinf (Score r)
      then Fin 0 else Score r)"
  "ScoreResult.more (validate_result r) = ScoreResult.more r"
  by (simp_all add: validate_result_def validate_score_def validate_bonus_def
      validate_proximity_def validate_flatness_def validate_prices_def clamp01_def Let_def)

lemma validate_result_twice: "validate_result (validate_result r) = validate_result r"
  by (rule ScoreResult.equality) (simp_all add: validate_result_fields clamp01_idem)

lemma validate_result_Company:
  "validate_result (r\<lparr>Company := c\<rparr>) = (validate_result r)\<lparr>Company := c\<rparr>"
  by (rule ScoreResult.equality) (simp_all add: validate_result_fields)

section \<open>The metrics\<close>

lemma raw_result_fields:
  "Ticker (raw_result t c cs ms) = t"
  "Company (raw_result t c cs ms) = c"
  "CurrentPrice (raw_result t c cs ms) = Some (close_value (last cs))"
  "MA50 (raw_result t c cs ms) = Some (last ms)"
  "DistancePct (raw_result t c cs ms) = distance (close_value (last cs)) (last ms)"
  "Flatness (raw_result t c cs ms) = flatness_of (slope ms)"
  "Proximity (raw_result t c cs ms) =
     proximity_of (distance (close_value (last cs)) (last ms))"
  "Bonus (raw_result t c cs ms) = bonus_of (distance (close_value (last cs)) (last ms))"
  by (simp_all add: raw_result_def Let_def)

lemma raw_result_Company:
  "raw_result t c cs ms = (raw_result t c' cs ms)\<lparr>Company := c\<rparr>"
  by (simp add: raw_result_def Let_def)

lemma proximity_of_range:
  "proximity_of d = NaN \<or> (\<exists>y. proximity_of d = Fin y \<and> 0 \<le> y \<and> y \<le> 1)"
  by (cases d) (simp_all add: proximity_of_def Let_def)

lemma clamp01_proximity_of: "clamp01 (proximity_of d) = proximity_of d"
  using proximity_of_range [of d] by (auto simp: clamp01_def)

lemma proximity_of_zero: "proximity_of (Fin 0) = Fin 1"
  by (simp add: proximity_of_def)

lemma distance_same: "x \<noteq> 0 \<Longrightarrow> distance (Fin x) (Fin x) = Fin 0"
  by (simp add: distance_def fl_sub_def)

lemma bonus_of_ge_1: "fl_le (Fin 1) (bonus_of d)"
  by (cases d) (simp_all add: bonus_of_def Let_def inf_of_sign_def)

section \<open>The two paths of \<^verbatim>\<open>fetch_stock_data\<close>\<close>

lemma try_block_Inr:
  "try_block t p = Inr r \<Longrightarrow>
     \<exists>i cs. info p = Inr i \<and> history p = Inr cs \<and> 50 \<le> length cs \<and>
       dropna (rolling_mean 50 cs) \<noteq> [] \<and>
       r = validate_result
             (raw_result t (company_name i t) cs (dropna (rolling_mean 50 cs)))"
  by (auto simp: try_block_def Let_def split: sum.splits if_splits)

lemma try_block_success:
  "info p = Inr i \<Longrightarrow> history p = Inr cs \<Longrightarrow> 50 \<le> length cs \<Longrightarrow>
   dropna (rolling_mean 50 cs) \<noteq> [] \<Longrightarrow>
     try_block t p =
       Inr (validate_result
              (raw_result t (company_name i t) cs (dropna (rolling_mean 50 cs))))"
  by (auto simp: try_block_def Let_def)

lemma try_block_Inl_iff:
  "(\<exists>e. try_block t p = Inl e) \<longleftrightarrow>
     (isl (info p) \<or> isl (history p) \<or>
      (\<exists>cs. history p = Inr cs \<and> (length cs < 50 \<or> dropna (rolling_mean 50 cs) = [])))"
  by (auto simp: try_block_def Let_def split: sum.splits)

lemma try_block_info_raises: "info p = Inl e \<Longrightarrow> try_block t p = Inl e"
  by (simp add: try_block_def)

lemma fetch_stock_data_Inl: "try_block t p = Inl e \<Longrightarrow> fetch_stock_data t p = fallback t"
  by (simp add: fetch_stock_data_def)

lemma fetch_stock_data_Inr: "try_block t p = Inr r \<Longrightarrow> fetch_stock_data t p = r"
  by (simp add: fetch_stock_data_def)

text \<open>
  On the success path the Bonus is at least 1 already before validation: it is 1, or
  \<open>1 - d\<close> with \<open>d < 0\<close>.
\<close>

lemma success_bonus_ge_1: "try_block t p = Inr r \<Longrightarrow> fl_le (Fin 1) (Bonus r)"
  using bonus_of_ge_1
  by (auto dest!: try_block_Inr simp: validate_result_fields raw_result_fields)

lemma success_distance:
  "try_block t p = Inr r \<Longrightarrow>
     \<exists>c m. CurrentPrice r = Some c \<and> MA50 r = Some m \<and> DistancePct r = distance c m"
  by (auto dest!: try_block_Inr simp: validate_result_fields raw_result_fields)

lemma success_proximity:
  "try_block t p = Inr r \<Longrightarrow> Proximity r = proximity_of (DistancePct r)"
  by (auto dest!: try_block_Inr
      simp: validate_result_fields raw_result_fields clamp01_proximity_of)

section \<open>The example inputs, evaluated\<close>

lemma flat_closes_facts:
  "flat_closes \<noteq> []" "length flat_closes = 55" "last flat_closes = Some 100"
  by (simp_all add: flat_closes_def)

lemma step_closes_facts:
  "step_closes \<noteq> []" "length step_closes = 55" "last step_closes = Some 150"
  by (simp_all add: step_closes_def)

lemma flat_ma50: "dropna (rolling_mean 50 flat_closes) = replicate 6 (Fin 100)"
  by code_simp

lemma step_ma50:
  "dropna (rolling_mean 50 step_closes) =
     [Fin 100, Fin 100, Fin 100, Fin 100, Fin 100, Fin 101]"
  by code_simp

text \<open>
  The slope feeds the returned Flatness: for \<open>step_closes\<close> the slope is 1/100 and the
  Flatness \<open>1 - 0.01 / 0.05\<close>.
\<close>

lemma step_slope: "slope (dropna (rolling_mean 50 step_closes)) = Fin (1 / 100)"
  by (simp add: step_ma50 slope_def fl_sub_def)

lemma step_flatness: "Flatness (fetch_stock_data ''MAN'' step_provider) = Fin (4 / 5)"
proof -
  have "try_block ''MAN'' step_provider =
      Inr (validate_result
             (raw_result ''MAN'' ''Acme Corp'' step_closes
                (dropna (rolling_mean 50 step_closes))))"
    by (simp add: try_block_def step_provider_def step_closes_facts step_ma50
        company_name_def)
  then show ?thesis
    by (simp add: fetch_stock_data_def validate_result_fields raw_result_fields step_slope
        flatness_of_def py_max_def clamp01_def fl_sub_def)
qed

lemma raw_result_flat: "raw_result t c flat_closes (replicate 6 (Fin 100)) = flat_record t c"
  by (simp add: raw_result_def flat_closes_facts Let_def slope_def eval_nat_numeral
      distance_def fl_sub_def proximity_of_def bonus_of_def flatness_of_def py_max_def
      flat_record_def)

lemma validate_result_flat: "validate_result (flat_record t c) = flat_record t c"
  by (rule ScoreResult.equality)
     (simp_all add: validate_result_fields clamp01_def prices_invalid_def flat_record_def)

lemma try_block_flat: "try_block ''MAN'' flat_provider = Inr (flat_record ''MAN'' ''Acme'')"
  by (simp add: try_block_def flat_provider_def flat_closes_facts flat_ma50 raw_result_flat
      validate_result_flat company_name_def)

lemma try_block_nameless:
  "try_block ''MAN'' nameless_provider = Inr (flat_record ''MAN'' ''MAN'')"
  by (simp add: try_block_def nameless_provider_def flat_closes_facts flat_ma50
      raw_result_flat validate_result_flat company_name_def)

lemma try_block_info_down:
  "try_block ''MAN'' info_down_provider = Inl (ProviderError ''info unavailable'')"
  by (simp add: try_block_def info_down_provider_def)

lemma try_block_short:
  "try_block ''MAN'' short_provider = Inl (ValueError TooFewData ''MAN'')"
  by (simp add: try_block_def short_provider_def)

section \<open>\<^verbatim>\<open>allocate_investment\<close>, row by row\<close>

lemma allocation_row_fields:
  "AllocationPct (allocation_row ops data T c r) = d_div ops (Score r) T"
  "AllocationPLN (allocation_row ops data T c r) =
     d_round2 ops (d_mul ops (d_div ops (Score r) T) c)"
  "ScoreResult.truncate (allocation_row ops data T c r) = frame_row data r"
  "Score (allocation_row ops data T c r) = Score r"
  by (simp_all add: allocation_row_def Let_def ScoreResult.extend_def
      AllocationRecord.fields_def ScoreResult.truncate_def frame_row_def)

text \<open>A non-empty list without a positive Score is answered with the empty list.\<close>

lemma allocate_investment_no_positive:
  "data \<noteq> [] \<Longrightarrow> list_all (\<lambda>r. \<not> fl_lt (Fin 0) (Score r)) data \<Longrightarrow>
     allocate_investment ops data capital = Inr []"
  by (simp add: allocate_investment_def positive_rows_def Let_def filter_empty_conv
      list_all_iff)

text \<open>
  Scores 3 and 1 with a capital of 300: the shares are 0.75 and 0.25, the amounts 225
  and 75, and the record without a positive Score is left out. A price that is a number
  comes back as it was.
\<close>

lemma frame_row_three_records:
  "frame_row three_records (flat_record t c\<lparr>Score := v\<rparr>) = flat_record t c\<lparr>Score := v\<rparr>"
  "frame_row three_records (flat_record t c) = flat_record t c"
  by (simp_all add: frame_row_def frame_price_def three_records_def flat_record_def
      fallback_def)

lemma allocate_investment_three_records:
  "allocate_investment exact_ops three_records (Fin 300) =
     Inr [allocation_row exact_ops three_records (Fin 4) (Fin 300)
            (flat_record ''UPS'' ''United Parcel''\<lparr>Score := Fin 3\<rparr>),
          allocation_row exact_ops three_records (Fin 4) (Fin 300)
            (flat_record ''GPC'' ''Genuine Parts'')]"
  "map AllocationPct
     [allocation_row exact_ops three_records (Fin 4) (Fin 300)
        (flat_record ''UPS'' ''United Parcel''\<lparr>Score := Fin 3\<rparr>),
      allocation_row exact_ops three_records (Fin 4) (Fin 300)
        (flat_record ''GPC'' ''Genuine Parts'')] =
     [Fin (3 / 4), Fin (1 / 4)]"
  "map AllocationPLN
     [allocation_row exact_ops three_records (Fin 4) (Fin 300)
        (flat_record ''UPS'' ''United Parcel''\<lparr>Score := Fin 3\<rparr>),
      allocation_row exact_ops three_records (Fin 4) (Fin 300)
        (flat_record ''GPC'' ''Genuine Parts'')] =
     [Fin 225, Fin 75]"
  by (simp_all add: three_records_def allocate_investment_def positive_rows_def
      fallback_def flat_record_def Let_def allocation_row_fields rint_def exact_ops_def)

section \<open>The claims\<close>

text \<open>
  C1. Every record the Scorer returns, on the success path or as the failure fallback,
  has a Bonus of at least 1.0. The success path keeps this (\<open>success_bonus_ge_1\<close>); the
  fallback does not: for a ticker with 49 closes the \<^verbatim>\<open>try\<close> block raises, the handler
  returns its literal dictionary, and the Bonus of the returned record is 0.0, below 1.
\<close>

theorem fallback_bonus_is_zero:
  "try_block ''MAN'' short_provider = Inl (ValueError TooFewData ''MAN'') \<and>
   Bonus (fetch_stock_data ''MAN'' short_provider) = Fin 0 \<and>
   \<not> fl_le (Fin 1) (Bonus (fetch_stock_data ''MAN'' short_provider))"
  by (simp add: try_block_short fetch_stock_data_def fallback_def)

text \<open>
  C2. \<^verbatim>\<open>fetch_stock_data\<close> never raises, and on any failure it returns the record with
  Ticker and Company equal to the given ticker, CurrentPrice and MA50 null, DistancePct
  0.0 and Score 0.0. In the model every exception of the \<^verbatim>\<open>try\<close> block is a value
  \<open>Inl e\<close> of \<open>try_block\<close>, and \<open>fetch_stock_data\<close> is a total function into the
  records. The second half of the statement lists the failures there are: the info
  lookup raises, the history lookup raises, fewer than 50 rows, or no moving-average
  value left after \<^verbatim>\<open>dropna\<close>.
\<close>

theorem fetch_stock_data_failure_record:
  "(\<forall>e. try_block t p = Inl e \<longrightarrow>
      fetch_stock_data t p =
        \<lparr>Ticker = t, Company = t, CurrentPrice = None, MA50 = None,
         DistancePct = Fin 0, Flatness = Fin 0, Proximity = Fin 0, Bonus = Fin 0,
         Score = Fin 0\<rparr>) \<and>
   ((\<exists>e. try_block t p = Inl e) \<longleftrightarrow>
      (isl (info p) \<or> isl (history p) \<or>
       (\<exists>cs. history p = Inr cs \<and>
             (length cs < 50 \<or> dropna (rolling_mean 50 cs) = []))))"
proof (intro conjI allI impI)
  fix e
  assume "try_block t p = Inl e"
  then have "fetch_stock_data t p = fallback t"
    by (rule fetch_stock_data_Inl)
  then show "fetch_stock_data t p =
      \<lparr>Ticker = t, Company = t, CurrentPrice = None, MA50 = None,
       DistancePct = Fin 0, Flatness = Fin 0, Proximity = Fin 0, Bonus = Fin 0,
       Score = Fin 0\<rparr>"
    by (simp add: fallback_def)
next
  show "(\<exists>e. try_block t p = Inl e) \<longleftrightarrow>
      (isl (info p) \<or> isl (history p) \<or>
       (\<exists>cs. history p = Inr cs \<and>
             (length cs < 50 \<or> dropna (rolling_mean 50 cs) = [])))"
    by (rule try_block_Inl_iff)
qed

theorem fetch_stock_data_failure_record_witness:
  "try_block ''MAN'' short_provider = Inl (ValueError TooFewData ''MAN'') \<and>
   fetch_stock_data ''MAN'' short_provider =
     \<lparr>Ticker = ''MAN'', Company = ''MAN'', CurrentPrice = None, MA50 = None,
      DistancePct = Fin 0, Flatness = Fin 0, Proximity = Fin 0, Bonus = Fin 0,
      Score = Fin 0\<rparr>"
  using fetch_stock_data_failure_record [of "''MAN''" short_provider] try_block_short
  by simp

text \<open>
  C3, as stated: every record the Scorer returns, the fallback included, has passed
  through the validator. A record that has passed through the validator is left
  unchanged by it (\<open>validate_result_twice\<close>); the record returned for a ticker with 49
  closes is changed by it, so it has not.
\<close>

theorem fallback_record_not_validated:
  "validate_result (fetch_stock_data ''MAN'' short_provider) \<noteq>
     fetch_stock_data ''MAN'' short_provider"
proof
  assume "validate_result (fetch_stock_data ''MAN'' short_provider) =
     fetch_stock_data ''MAN'' short_provider"
  then have "Bonus (validate_result (fetch_stock_data ''MAN'' short_provider)) =
     Bonus (fetch_stock_data ''MAN'' short_provider)"
    by simp
  then show False
    by (simp add: validate_result_fields try_block_short fetch_stock_data_def fallback_def)
qed

text \<open>
  C3, amended: every record returned on the success path is the validator's output on
  the dictionary assembled from the metrics, and so is unchanged by a further
  validation; on the failure path the handler's dictionary is returned as it is written.
\<close>

theorem fetch_stock_data_validates_success_path:
  "(\<forall>i cs. info p = Inr i \<and> history p = Inr cs \<and> 50 \<le> length cs \<and>
        dropna (rolling_mean 50 cs) \<noteq> [] \<longrightarrow>
      fetch_stock_data t p =
        validate_result
          (raw_result t (company_name i t) cs (dropna (rolling_mean 50 cs))) \<and>
      validate_result (fetch_stock_data t p) = fetch_stock_data t p) \<and>
   (\<forall>e. try_block t p = Inl e \<longrightarrow> fetch_stock_data t p = fallback t)"
proof (intro conjI allI impI)
  fix i cs
  assume h: "info p = Inr i \<and> history p = Inr cs \<and> 50 \<le> length cs \<and>
        dropna (rolling_mean 50 cs) \<noteq> []"
  then have "try_block t p =
      Inr (validate_result
             (raw_result t (company_name i t) cs (dropna (rolling_mean 50 cs))))"
    by (intro try_block_success) simp_all
  then show r: "fetch_stock_data t p =
      validate_result
        (raw_result t (company_name i t) cs (dropna (rolling_mean 50 cs)))"
    by (rule fetch_stock_data_Inr)
  show "validate_result (fetch_stock_data t p) = fetch_stock_data t p"
    unfolding r by (rule validate_result_twice)
next
  fix e
  assume "try_block t p = Inl e"
  then show "fetch_stock_data t p = fallback t"
    by (rule fetch_stock_data_Inl)
qed

theorem fetch_stock_data_validates_success_path_witness:
  "(info flat_provider = Inr \<lparr>longName = None, shortName = Some ''Acme''\<rparr> \<and>
    history flat_provider = Inr flat_closes \<and> 50 \<le> length flat_closes \<and>
    dropna (rolling_mean 50 flat_closes) \<noteq> []) \<and>
   fetch_stock_data ''MAN'' flat_provider =
     validate_result
       (raw_result ''MAN'' ''Acme'' flat_closes (dropna (rolling_mean 50 flat_closes))) \<and>
   validate_result (fetch_stock_data ''MAN'' flat_provider) =
     fetch_stock_data ''MAN'' flat_provider \<and>
   try_block ''MAN'' short_provider = Inl (ValueError TooFewData ''MAN'') \<and>
   fetch_stock_data ''MAN'' short_provider = fallback ''MAN''"
proof -
  have h: "info flat_provider = Inr \<lparr>longName = None, shortName = Some ''Acme''\<rparr> \<and>
      history flat_provider = Inr flat_closes \<and> 50 \<le> length flat_closes \<and>
      dropna (rolling_mean 50 flat_closes) \<noteq> []"
    by (simp add: flat_provider_def flat_closes_facts flat_ma50)
  have c: "company_name \<lparr>longName = None, shortName = Some ''Acme''\<rparr> ''MAN'' = ''Acme''"
    by (simp add: company_name_def)
  from fetch_stock_data_validates_success_path [of flat_provider "''MAN''"] h c
  have "fetch_stock_data ''MAN'' flat_provider =
      validate_result
        (raw_result ''MAN'' ''Acme'' flat_closes (dropna (rolling_mean 50 flat_closes))) \<and>
    validate_result (fetch_stock_data ''MAN'' flat_provider) =
      fetch_stock_data ''MAN'' flat_provider"
    by fastforce
  moreover from fetch_stock_data_validates_success_path [of short_provider "''MAN''"]
    try_block_short
  have "fetch_stock_data ''MAN'' short_provider = fallback ''MAN''"
    by blast
  ultimately show ?thesis
    using h try_block_short by blast
qed

text \<open>
  C4, as stated: a failure of the company-name resolution does not abort scoring; the
  ticker is used as Company and the price metrics are still computed. With the same 55
  closes at 100, a provider whose info carries no name gives the scored record (Company
  the ticker, Score 1.0), while a provider whose info lookup raises gives the fallback:
  no prices and Score 0.0.
\<close>

theorem info_failure_aborts_scoring:
  "history info_down_provider = history nameless_provider \<and>
   fetch_stock_data ''MAN'' nameless_provider = flat_record ''MAN'' ''MAN'' \<and>
   fetch_stock_data ''MAN'' info_down_provider = fallback ''MAN'' \<and>
   CurrentPrice (fetch_stock_data ''MAN'' info_down_provider) = None \<and>
   Score (fetch_stock_data ''MAN'' info_down_provider) = Fin 0 \<and>
   Score (fetch_stock_data ''MAN'' nameless_provider) = Fin 1"
proof -
  have "history info_down_provider = history nameless_provider"
    by (simp add: info_down_provider_def nameless_provider_def)
  moreover have "fetch_stock_data ''MAN'' nameless_provider = flat_record ''MAN'' ''MAN''"
    by (simp add: fetch_stock_data_def try_block_nameless)
  moreover have "fetch_stock_data ''MAN'' info_down_provider = fallback ''MAN''"
    by (simp add: fetch_stock_data_def try_block_info_down)
  ultimately show ?thesis
    by (simp add: fallback_def flat_record_def)
qed

text \<open>
  C4, amended: when the info of the provider carries neither a long nor a short name
  (absent, null or empty), Company is the ticker and every other field is what any other
  info would have given with the same history; when the info lookup itself raises, the
  fallback record is returned.
\<close>

theorem company_name_falls_back_to_ticker:
  "(\<forall>i. info p = Inr i \<and> (longName i = None \<or> longName i = Some []) \<and>
        (shortName i = None \<or> shortName i = Some []) \<longrightarrow>
      Company (fetch_stock_data t p) = t \<and>
      (\<forall>i'. fetch_stock_data t p =
              (fetch_stock_data t (p\<lparr>info := Inr i'\<rparr>))\<lparr>Company := t\<rparr>)) \<and>
   (\<forall>e. info p = Inl e \<longrightarrow> fetch_stock_data t p = fallback t)"
proof (intro conjI allI impI)
  fix e
  assume "info p = Inl e"
  then have "try_block t p = Inl e" by (rule try_block_info_raises)
  then show "fetch_stock_data t p = fallback t" by (rule fetch_stock_data_Inl)
next
  fix i
  assume h: "info p = Inr i \<and> (longName i = None \<or> longName i = Some []) \<and>
        (shortName i = None \<or> shortName i = Some [])"
  then have name: "company_name i t = t"
    by (auto simp: company_name_def)
  show "Company (fetch_stock_data t p) = t"
    using h name
    by (auto simp: fetch_stock_data_def try_block_def Let_def fallback_def
        validate_result_fields raw_result_fields split: sum.splits)
next
  fix i i'
  assume h: "info p = Inr i \<and> (longName i = None \<or> longName i = Some []) \<and>
        (shortName i = None \<or> shortName i = Some [])"
  then have name: "company_name i t = t"
    by (auto simp: company_name_def)
  have raw: "\<And>cs ms. validate_result (raw_result t t cs ms) =
      (validate_result (raw_result t (company_name i' t) cs ms))\<lparr>Company := t\<rparr>"
    by (subst raw_result_Company [of t t _ _ "company_name i' t"])
       (rule validate_result_Company)
  show "fetch_stock_data t p = (fetch_stock_data t (p\<lparr>info := Inr i'\<rparr>))\<lparr>Company := t\<rparr>"
  proof (cases "history p")
    case (Inl e)
    with h show ?thesis
      by (simp add: fetch_stock_data_def try_block_def fallback_def)
  next
    case (Inr cs)
    show ?thesis
    proof (cases "cs = [] \<or> length cs < 50 \<or> dropna (rolling_mean 50 cs) = []")
      case True
      with h Inr show ?thesis
        by (auto simp: fetch_stock_data_def try_block_def fallback_def Let_def)
    next
      case False
      with h Inr name raw [of cs "dropna (rolling_mean 50 cs)"] show ?thesis
        by (simp add: fetch_stock_data_def try_block_def Let_def)
    qed
  qed
qed

theorem company_name_falls_back_to_ticker_witness:
  "(info nameless_provider = Inr \<lparr>longName = None, shortName = Some []\<rparr> \<and>
    Company (fetch_stock_data ''MAN'' nameless_provider) = ''MAN'' \<and>
    fetch_stock_data ''MAN'' nameless_provider =
      (fetch_stock_data ''MAN''
         (nameless_provider\<lparr>info := Inr \<lparr>longName = None, shortName = Some ''Acme''\<rparr>\<rparr>))
      \<lparr>Company := ''MAN''\<rparr>) \<and>
   (info info_down_provider = Inl (ProviderError ''info unavailable'') \<and>
    fetch_stock_data ''MAN'' info_down_provider = fallback ''MAN'')"
proof -
  have a: "info nameless_provider = Inr \<lparr>longName = None, shortName = Some []\<rparr>"
    by (simp add: nameless_provider_def)
  have b: "info info_down_provider = Inl (ProviderError ''info unavailable'')"
    by (simp add: info_down_provider_def)
  from company_name_falls_back_to_ticker [of nameless_provider "''MAN''"] a
  have "Company (fetch_stock_data ''MAN'' nameless_provider) = ''MAN'' \<and>
      (\<forall>i'. fetch_stock_data ''MAN'' nameless_provider =
         (fetch_stock_data ''MAN'' (nameless_provider\<lparr>info := Inr i'\<rparr>))
         \<lparr>Company := ''MAN''\<rparr>)"
    by simp
  moreover from company_name_falls_back_to_ticker [of info_down_provider "''MAN''"] b
  have "fetch_stock_data ''MAN'' info_down_provider = fallback ''MAN''"
    by simp
  ultimately show ?thesis
    using a b by blast
qed

text \<open>
  C5, as stated: for every list of records with at least one positive Score and every
  capital, each kept record gets the share \<open>Score / total\<close> and the shares sum to 1.0
  within \<open>1e-9\<close>. An infinite Score is positive, so its record is kept; the total is
  infinite and the share is \<^verbatim>\<open>inf / inf\<close>, NaN, which is within no tolerance of 1.
  Every operation here is on an infinity or NaN, where the doubles and \<open>exact_ops\<close>
  agree.
\<close>

theorem infinite_score_share_is_nan:
  "fl_lt (Fin 0) (Score infinite_score_record) \<and>
   allocate_investment exact_ops [infinite_score_record] (Fin 300) =
     Inr [allocation_row exact_ops [infinite_score_record] PInf (Fin 300)
            infinite_score_record] \<and>
   map AllocationPct
     [allocation_row exact_ops [infinite_score_record] PInf (Fin 300)
        infinite_score_record] = [NaN] \<and>
   exact_sum [NaN] = NaN"
  by (simp add: allocate_investment_def positive_rows_def Let_def allocation_row_fields
      infinite_score_record_def exact_ops_def)

text \<open>
  C5, amended: for every list of records with at least one positive Score, all positive
  Scores finite, and every capital, provided the total of the positive Scores comes out
  finite and within a relative error of \<open>1e-10\<close> of their exact sum, and each quotient
  \<open>Score / total\<close> comes out finite and within a relative error of \<open>1e-10\<close> (plus
  \<open>1e-10\<close> divided by the number of kept records) of the exact quotient: the allocator
  returns the records with a positive Score, in order and as the frame hands them back
  (a null price as NaN when its column holds a number), each with
  AllocationPct = Score / total and AllocationPLN = round(AllocationPct * capital, 2) as
  the double operations compute them, and the exact sum of the returned shares is within
  \<open>1e-9\<close> of 1.
\<close>

theorem allocate_investment_shares:
  assumes pos: "\<exists>r\<in>set data. fl_lt (Fin 0) (Score r)"
    and fin: "\<forall>r\<in>set data. fl_lt (Fin 0) (Score r) \<longrightarrow> isfinite (Score r)"
    and total: "d_sum ops (map Score (positive_rows data)) = Fin T"
    and total_error:
      "\<bar>T - sum_list (map (\<lambda>r. fl_real (Score r)) (positive_rows data))\<bar> \<le>
         sum_list (map (\<lambda>r. fl_real (Score r)) (positive_rows data)) / 10 ^ 10"
    and quotients:
      "\<forall>r\<in>set (positive_rows data).
         \<exists>q. d_div ops (Score r) (Fin T) = Fin q \<and>
             \<bar>q - fl_real (Score r) / T\<bar> \<le>
               (1 / 10 ^ 10) * (fl_real (Score r) / T) +
               1 / (10 ^ 10 * real (length (positive_rows data)))"
  shows "\<exists>out. allocate_investment ops data capital = Inr out \<and>
           map ScoreResult.truncate out = map (frame_row data) (positive_rows data) \<and>
           (\<forall>a\<in>set out.
              AllocationPct a =
                d_div ops (Score a) (d_sum ops (map Score (positive_rows data))) \<and>
              AllocationPLN a = d_round2 ops (d_mul ops (AllocationPct a) capital)) \<and>
           (\<exists>qs. map AllocationPct out = map Fin qs \<and> \<bar>sum_list qs - 1\<bar> \<le> 1 / 10 ^ 9)"
proof -
  define df where "df = positive_rows data"
  define S where "S = sum_list (map (\<lambda>r. fl_real (Score r)) df)"
  define n where "n = real (length df)"
  from pos have ne: "data \<noteq> []" and dfne: "df \<noteq> []"
    by (auto simp: df_def positive_rows_def filter_empty_conv)
  have npos: "0 < n"
    using dfne by (simp add: n_def)
  have allfin: "list_all isfinite (map Score df)"
    using fin by (auto simp: df_def positive_rows_def list_all_iff)
  have allpos: "list_all (\<lambda>v. fl_lt (Fin 0) v) (map Score df)"
    by (auto simp: df_def positive_rows_def list_all_iff)
  have "0 < sum_list (map fl_real (map Score df))"
    using dfne allpos allfin by (intro sum_list_positive) simp_all
  then have Spos: "0 < S"
    by (simp add: S_def o_def)
  have terr: "\<bar>T - S\<bar> \<le> S / 10 ^ 10"
    using total_error by (simp add: S_def df_def)
  have "S / 10 ^ 10 \<le> S / 2"
    using Spos by simp
  with terr have Tlow: "S / 2 \<le> T"
    by linarith
  have Tpos: "0 < T"
    using Tlow Spos by linarith
  define out where "out = map (allocation_row ops data (Fin T) capital) df"
  have res: "allocate_investment ops data capital = Inr out"
    using ne dfne total Tpos
    by (simp add: allocate_investment_def Let_def df_def [symmetric] out_def)
  have trunc: "map ScoreResult.truncate out = map (frame_row data) df"
    by (simp add: out_def o_def allocation_row_fields)
  have rows: "\<forall>a\<in>set out.
      AllocationPct a = d_div ops (Score a) (d_sum ops (map Score df)) \<and>
      AllocationPLN a = d_round2 ops (d_mul ops (AllocationPct a) capital)"
    using total by (auto simp: out_def df_def allocation_row_fields)
  from quotients have "\<forall>r\<in>set df. \<exists>q. d_div ops (Score r) (Fin T) = Fin q \<and>
      \<bar>q - fl_real (Score r) / T\<bar> \<le> (1 / 10 ^ 10) * (fl_real (Score r) / T) + 1 / (10 ^ 10 * n)"
    by (simp add: df_def n_def)
  then obtain f where f: "\<forall>r\<in>set df. d_div ops (Score r) (Fin T) = Fin (f r) \<and>
      \<bar>f r - fl_real (Score r) / T\<bar> \<le> (1 / 10 ^ 10) * (fl_real (Score r) / T) + 1 / (10 ^ 10 * n)"
    using bchoice [of "set df" "\<lambda>r q. d_div ops (Score r) (Fin T) = Fin q \<and>
      \<bar>q - fl_real (Score r) / T\<bar> \<le> (1 / 10 ^ 10) * (fl_real (Score r) / T) + 1 / (10 ^ 10 * n)"]
    by blast
  define qs where "qs = map f df"
  have shares: "map AllocationPct out = map Fin qs"
    using f by (simp add: out_def qs_def allocation_row_fields)
  have "\<bar>sum_list (map f df) - sum_list (map (\<lambda>r. fl_real (Score r) / T) df)\<bar> \<le>
      (1 / 10 ^ 10) * sum_list (map (\<lambda>r. fl_real (Score r) / T) df) +
      (1 / (10 ^ 10 * n)) * real (length df)"
    using f by (intro sum_list_error) simp
  then have e1: "\<bar>sum_list qs - S / T\<bar> \<le> (1 / 10 ^ 10) * (S / T) + 1 / 10 ^ 10"
    using npos by (simp add: qs_def sum_list_quotients S_def n_def)
  have x2: "S / T \<le> 2"
    using Tlow Tpos Spos by (simp add: pos_divide_le_eq)
  have "\<bar>S / T - 1\<bar> = \<bar>S - T\<bar> / T"
    using Tpos by (simp add: field_simps abs_divide) 
  also have "\<dots> \<le> (S / 10 ^ 10) / T"
  proof (rule divide_right_mono)
    show "\<bar>S - T\<bar> \<le> S / 10 ^ 10"
      using terr by (simp only: abs_minus_commute [of S T])
    show "0 \<le> T"
      using Tpos by simp
  qed
  finally have e2: "\<bar>S / T - 1\<bar> \<le> (1 / 10 ^ 10) * (S / T)"
    by simp
  have "\<bar>sum_list qs - 1\<bar> \<le> \<bar>sum_list qs - S / T\<bar> + \<bar>S / T - 1\<bar>"
    by linarith
  also have "\<dots> \<le> 2 * ((1 / 10 ^ 10) * (S / T)) + 1 / 10 ^ 10"
    using e1 e2 by linarith
  also have "\<dots> \<le> 2 * ((1 / 10 ^ 10) * 2) + 1 / 10 ^ 10"
    using x2 by simp
  also have "\<dots> \<le> 1 / 10 ^ 9"
    by simp
  finally have tol: "\<bar>sum_list qs - 1\<bar> \<le> 1 / 10 ^ 9" .
  from res trunc rows shares tol show ?thesis
    unfolding df_def by (intro exI [of _ out]) blast
qed

theorem allocate_investment_shares_witness:
  "allocate_investment exact_ops three_records (Fin 300) =
     Inr [allocation_row exact_ops three_records (Fin 4) (Fin 300)
            (flat_record ''UPS'' ''United Parcel''\<lparr>Score := Fin 3\<rparr>),
          allocation_row exact_ops three_records (Fin 4) (Fin 300)
            (flat_record ''GPC'' ''Genuine Parts'')] \<and>
   positive_rows three_records =
     [flat_record ''UPS'' ''United Parcel''\<lparr>Score := Fin 3\<rparr>,
      flat_record ''GPC'' ''Genuine Parts''] \<and>
   d_sum exact_ops (map Score (positive_rows three_records)) = Fin 4 \<and>
   map AllocationPct
     [allocation_row exact_ops three_records (Fin 4) (Fin 300)
        (flat_record ''UPS'' ''United Parcel''\<lparr>Score := Fin 3\<rparr>),
      allocation_row exact_ops three_records (Fin 4) (Fin 300)
        (flat_record ''GPC'' ''Genuine Parts'')] = [Fin (3 / 4), Fin (1 / 4)] \<and>
   (\<exists>qs. map AllocationPct
           [allocation_row exact_ops three_records (Fin 4) (Fin 300)
              (flat_record ''UPS'' ''United Parcel''\<lparr>Score := Fin 3\<rparr>),
            allocation_row exact_ops three_records (Fin 4) (Fin 300)
              (flat_record ''GPC'' ''Genuine Parts'')] = map Fin qs \<and>
         \<bar>sum_list qs - 1\<bar> \<le> 1 / 10 ^ 9)"
proof -
  have rows: "positive_rows three_records =
      [flat_record ''UPS'' ''United Parcel''\<lparr>Score := Fin 3\<rparr>,
       flat_record ''GPC'' ''Genuine Parts'']"
    by (simp add: positive_rows_def three_records_def flat_record_def fallback_def)
  have a: "\<exists>r\<in>set three_records. fl_lt (Fin 0) (Score r)"
    by (simp add: three_records_def flat_record_def fallback_def)
  have b: "\<forall>r\<in>set three_records. fl_lt (Fin 0) (Score r) \<longrightarrow> isfinite (Score r)"
    by (simp add: three_records_def flat_record_def fallback_def)
  have c: "d_sum exact_ops (map Score (positive_rows three_records)) = Fin 4"
    by (simp add: rows exact_ops_def flat_record_def)
  have d: "\<bar>4 - sum_list (map (\<lambda>r. fl_real (Score r)) (positive_rows three_records))\<bar> \<le>
      sum_list (map (\<lambda>r. fl_real (Score r)) (positive_rows three_records)) / 10 ^ 10"
    by (simp add: rows flat_record_def)
  have q1: "\<exists>q. d_div exact_ops
             (Score (flat_record ''UPS'' ''United Parcel''\<lparr>Score := Fin 3\<rparr>)) (Fin 4) =
           Fin q \<and>
         \<bar>q - fl_real (Score (flat_record ''UPS'' ''United Parcel''\<lparr>Score := Fin 3\<rparr>)) / 4\<bar> \<le>
           (1 / 10 ^ 10) *
             (fl_real (Score (flat_record ''UPS'' ''United Parcel''\<lparr>Score := Fin 3\<rparr>)) / 4) +
           1 / (10 ^ 10 * real (length (positive_rows three_records)))"
    by (rule exI [of _ "3 / 4"]) (simp add: rows exact_ops_def flat_record_def)
  have q2: "\<exists>q. d_div exact_ops (Score (flat_record ''GPC'' ''Genuine Parts'')) (Fin 4) =
           Fin q \<and>
         \<bar>q - fl_real (Score (flat_record ''GPC'' ''Genuine Parts'')) / 4\<bar> \<le>
           (1 / 10 ^ 10) * (fl_real (Score (flat_record ''GPC'' ''Genuine Parts'')) / 4) +
           1 / (10 ^ 10 * real (length (positive_rows three_records)))"
    by (rule exI [of _ "1 / 4"]) (simp add: rows exact_ops_def flat_record_def)
  have e: "\<forall>r\<in>set (positive_rows three_records).
      \<exists>q. d_div exact_ops (Score r) (Fin 4) = Fin q \<and>
          \<bar>q - fl_real (Score r) / 4\<bar> \<le>
            (1 / 10 ^ 10) * (fl_real (Score r) / 4) +
            1 / (10 ^ 10 * real (length (positive_rows three_records)))"
    using q1 q2 by (simp add: rows)
  from allocate_investment_shares [OF a b c d e, of "Fin 300"]
  obtain out qs where out: "allocate_investment exact_ops three_records (Fin 300) = Inr out"
    and qs: "map AllocationPct out = map Fin qs" "\<bar>sum_list qs - 1\<bar> \<le> 1 / 10 ^ 9"
    by blast
  from out have o: "out =
      [allocation_row exact_ops three_records (Fin 4) (Fin 300)
         (flat_record ''UPS'' ''United Parcel''\<lparr>Score := Fin 3\<rparr>),
       allocation_row exact_ops three_records (Fin 4) (Fin 300)
         (flat_record ''GPC'' ''Genuine Parts'')]"
    by (simp add: allocate_investment_three_records(1))
  from qs have "\<exists>qs. map AllocationPct out = map Fin qs \<and> \<bar>sum_list qs - 1\<bar> \<le> 1 / 10 ^ 9"
    by blast
  with out rows c allocate_investment_three_records(2) show ?thesis
    unfolding o by blast
qed

text \<open>
  C6. For every list of records without a positive Score, the empty list included, the
  allocator returns the empty list and does not raise. A non-empty such list is answered
  with the empty list (\<open>allocate_investment_no_positive\<close>); on the empty list
  \<^verbatim>\<open>df['Score']\<close> raises \<^verbatim>\<open>KeyError\<close> before the filter is reached, whatever the
  double operations.
\<close>

theorem allocate_investment_empty_list_raises:
  "allocate_investment ops [] (Fin 3000) = Inl (KeyError ''Score'')"
  by (simp add: allocate_investment_def)

text \<open>
  C7. For every moving-average series of the success path: with at least five values
  the slope is the change from the value five periods back to the latest value, divided
  by the value five periods back, the five periods being the most recent five values of
  the series, so that the value five periods back is the fifth counted from the end
  (\<open>rev ms ! 4\<close>, the latest being \<open>rev ms ! 0\<close>); with fewer than five values the
  slope is 0.
\<close>

theorem slope_over_last_five_values:
  "(5 \<le> length ms \<longrightarrow>
      slope ms = fl_div (fl_sub (last ms) (rev ms ! 4)) (rev ms ! 4)) \<and>
   (length ms < 5 \<longrightarrow> slope ms = Fin 0)"
proof (intro conjI impI)
  assume h: "5 \<le> length ms"
  then have "rev ms ! 4 = ms ! (length ms - 5)"
    by (simp add: rev_nth eval_nat_numeral)
  with h show "slope ms = fl_div (fl_sub (last ms) (rev ms ! 4)) (rev ms ! 4)"
    by (simp add: slope_def Let_def)
next
  assume "length ms < 5"
  then show "slope ms = Fin 0"
    by (simp add: slope_def)
qed

theorem slope_over_last_five_values_witness:
  "5 \<le> length (dropna (rolling_mean 50 step_closes)) \<and>
   last (dropna (rolling_mean 50 step_closes)) = Fin 101 \<and>
   rev (dropna (rolling_mean 50 step_closes)) ! 4 = Fin 100 \<and>
   slope (dropna (rolling_mean 50 step_closes)) = Fin (1 / 100) \<and>
   length short_series < 5 \<and>
   slope short_series = Fin 0"
proof -
  have a: "5 \<le> length (dropna (rolling_mean 50 step_closes))"
    by (simp add: step_ma50)
  have b: "last (dropna (rolling_mean 50 step_closes)) = Fin 101"
    by (simp add: step_ma50)
  have c: "rev (dropna (rolling_mean 50 step_closes)) ! 4 = Fin 100"
    by (simp add: step_ma50)
  have d: "length short_series < 5"
    by (simp add: short_series_def)
  from slope_over_last_five_values [of "dropna (rolling_mean 50 step_closes)"] a b c
  have "slope (dropna (rolling_mean 50 step_closes)) = Fin (1 / 100)"
    by (simp add: fl_sub_def)
  moreover from slope_over_last_five_values [of short_series] d
  have "slope short_series = Fin 0"
    by blast
  ultimately show ?thesis
    using a b c d by blast
qed

text \<open>
  C8. For every record whose CurrentPrice or MA50 is null or not positive, the validator
  sets Score to 0.0 and leaves CurrentPrice and MA50 as they are.
\<close>

theorem validate_result_invalid_prices:
  assumes "CurrentPrice r = None \<or> MA50 r = None \<or>
           (\<exists>c. CurrentPrice r = Some c \<and> fl_le c (Fin 0)) \<or>
           (\<exists>m. MA50 r = Some m \<and> fl_le m (Fin 0))"
  shows "Score (validate_result r) = Fin 0 \<and>
         CurrentPrice (validate_result r) = CurrentPrice r \<and>
         MA50 (validate_result r) = MA50 r"
proof -
  from assms have "prices_invalid (CurrentPrice r) (MA50 r)"
    by (auto simp: prices_invalid_def split: option.splits)
  then show ?thesis
    by (simp add: validate_result_fields)
qed

theorem validate_result_invalid_prices_witness:
  "CurrentPrice negative_price_record = Some (Fin (- 5)) \<and> fl_le (Fin (- 5)) (Fin 0) \<and>
   Score negative_price_record = Fin (41 / 40) \<and>
   Score (validate_result negative_price_record) = Fin 0 \<and>
   CurrentPrice (validate_result negative_price_record) = Some (Fin (- 5)) \<and>
   MA50 (validate_result negative_price_record) = Some (Fin 100)"
proof -
  have a: "CurrentPrice negative_price_record = Some (Fin (- 5))"
    and b: "MA50 negative_price_record = Some (Fin 100)"
    and c: "Score negative_price_record = Fin (41 / 40)"
    by (simp_all add: negative_price_record_def)
  have "CurrentPrice negative_price_record = None \<or> MA50 negative_price_record = None \<or>
      (\<exists>c. CurrentPrice negative_price_record = Some c \<and> fl_le c (Fin 0)) \<or>
      (\<exists>m. MA50 negative_price_record = Some m \<and> fl_le m (Fin 0))"
    using a by simp
  from validate_result_invalid_prices [OF this] a b c show ?thesis
    by simp
qed

text \<open>
  C9. On the success path Proximity is \<open>exp (- d\<^sup>2 / (2 * 0.03\<^sup>2))\<close> for the returned
  DistancePct \<open>d\<close>, the validator leaving it as computed; when \<open>d\<close> is 0, and so when
  the current price and MA50 are the same non-zero number, Proximity is exactly 1.0.
\<close>

theorem proximity_is_gaussian:
  assumes "try_block t p = Inr r"
  shows "Proximity r =
           fl_exp (fl_div (fl_neg (fl_mul (DistancePct r) (DistancePct r)))
                          (Fin (2 * (3 / 100)\<^sup>2))) \<and>
         (DistancePct r = Fin 0 \<longrightarrow> Proximity r = Fin 1) \<and>
         (\<forall>x. x \<noteq> 0 \<and> CurrentPrice r = Some (Fin x) \<and> MA50 r = Some (Fin x) \<longrightarrow>
              DistancePct r = Fin 0 \<and> Proximity r = Fin 1)"
proof -
  have prox: "Proximity r = proximity_of (DistancePct r)"
    using assms by (rule success_proximity)
  from success_distance [OF assms] obtain c m where
    cm: "CurrentPrice r = Some c" "MA50 r = Some m" "DistancePct r = distance c m"
    by blast
  have "Proximity r =
      fl_exp (fl_div (fl_neg (fl_mul (DistancePct r) (DistancePct r)))
                     (Fin (2 * (3 / 100)\<^sup>2)))"
    unfolding prox by (simp add: proximity_of_def Let_def)
  moreover have "DistancePct r = Fin 0 \<longrightarrow> Proximity r = Fin 1"
    unfolding prox by (simp add: proximity_of_zero)
  moreover have "\<forall>x. x \<noteq> 0 \<and> CurrentPrice r = Some (Fin x) \<and> MA50 r = Some (Fin x) \<longrightarrow>
      DistancePct r = Fin 0 \<and> Proximity r = Fin 1"
    unfolding prox using cm by (auto simp: distance_same proximity_of_zero)
  ultimately show ?thesis by blast
qed

theorem proximity_is_gaussian_witness:
  "try_block ''MAN'' flat_provider = Inr (flat_record ''MAN'' ''Acme'') \<and>
   DistancePct (flat_record ''MAN'' ''Acme'') = Fin 0 \<and>
   (100 \<noteq> (0::real) \<and> CurrentPrice (flat_record ''MAN'' ''Acme'') = Some (Fin 100) \<and>
    MA50 (flat_record ''MAN'' ''Acme'') = Some (Fin 100)) \<and>
   Proximity (flat_record ''MAN'' ''Acme'') = Fin 1"
proof -
  have d: "DistancePct (flat_record ''MAN'' ''Acme'') = Fin 0"
    and c: "CurrentPrice (flat_record ''MAN'' ''Acme'') = Some (Fin 100)"
    and m: "MA50 (flat_record ''MAN'' ''Acme'') = Some (Fin 100)"
    by (simp_all add: flat_record_def)
  from proximity_is_gaussian [OF try_block_flat] d
  have "Proximity (flat_record ''MAN'' ''Acme'') = Fin 1"
    by blast
  with try_block_flat d c m show ?thesis
    by simp
qed

text \<open>
  C10. The validator is idempotent: validating a validated record changes nothing.
\<close>

theorem validate_result_idempotent:
  "validate_result (validate_result r) = validate_result r"
  by (rule ScoreResult.equality) (simp_all add: validate_result_fields clamp01_idem)

theorem validate_result_idempotent_witness:
  "validate_result (validate_result negative_price_record) =
     validate_result negative_price_record"
  by (rule validate_result_idempotent)

end
